theory Spec2Isabelle
  imports Main "HOL-Library.Finite_Map"
begin

section \<open>The nonce manager\<close>

text \<open>
  The class \<open>OptimisticNonceManager\<close> keeps a \<open>Map<number, number>\<close> from API-key
  slot to the next nonce of that slot, the owned slot range and the slot of the next
  round-robin pick. Slots and nonces are JavaScript numbers holding integers; they are
  modelled as unbounded integers (exact for every value below \<open>2^53\<close>). The reference
  to the exchange API is not a field of the model: the one method that uses it takes
  the API's \<open>nextNonce\<close> operation as an argument.
\<close>

record OptimisticNonceManager =
  nonces :: "int \<rightharpoonup> int"
  accountIndex :: int
  startApiKey :: int
  endApiKey :: int
  currentApiKey :: int

text \<open>\<open>this.nonces.get(k) || 0\<close>: a missing entry and a stored \<open>0\<close> both read as \<open>0\<close>.\<close>

definition get_or_zero :: "(int \<rightharpoonup> int) \<Rightarrow> int \<Rightarrow> int" where
  "get_or_zero ns k = (case ns k of None \<Rightarrow> 0 | Some v \<Rightarrow> v)"

text \<open>The constructor's loop \<open>for (let i = startApiKey; i <= endApiKey; i++) nonces.set(i, 0)\<close>.\<close>

function set_zero_from :: "int \<Rightarrow> int \<Rightarrow> (int \<rightharpoonup> int) \<Rightarrow> (int \<rightharpoonup> int)" where
  "set_zero_from i e ns = (if i \<le> e then set_zero_from (i + 1) e (ns(i \<mapsto> 0)) else ns)"
  by pat_completeness auto
termination
  by (relation "measure (\<lambda>(i, e, ns). nat (e + 1 - i))") auto

declare set_zero_from.simps [simp del]

definition new_OptimisticNonceManager :: "int \<Rightarrow> int \<Rightarrow> int \<Rightarrow> OptimisticNonceManager" where
  "new_OptimisticNonceManager account_index start_api_key end_api_key =
     \<lparr> nonces = set_zero_from start_api_key end_api_key Map.empty,
       accountIndex = account_index,
       startApiKey = start_api_key,
       endApiKey = end_api_key,
       currentApiKey = start_api_key \<rparr>"

text \<open>
  What a call of the exchange API's \<open>nextNonce(account_index, api_key_index)\<close> does:
  it throws, or it answers with \<open>response.data.nonce\<close>, which may be \<open>undefined\<close>.
\<close>

datatype nonce_reply = NonceThrows | NonceData "int option"

definition store_reply :: "OptimisticNonceManager \<Rightarrow> int \<Rightarrow> nonce_reply \<Rightarrow> OptimisticNonceManager" where
  "store_reply m i reply =
     (case reply of
        NonceThrows \<Rightarrow> m
      | NonceData None \<Rightarrow> m
      | NonceData (Some n) \<Rightarrow> m\<lparr>nonces := (nonces m)(i \<mapsto> n)\<rparr>)"

text \<open>\<open>initialize\<close>: one fetch per owned slot; a failed fetch leaves the slot as it is.\<close>

function initialize_from :: "(int \<Rightarrow> int \<Rightarrow> nonce_reply) \<Rightarrow> int \<Rightarrow> OptimisticNonceManager \<Rightarrow> OptimisticNonceManager" where
  "initialize_from nextNonce i m =
     (if i \<le> endApiKey m
      then initialize_from nextNonce (i + 1) (store_reply m i (nextNonce (accountIndex m) i))
      else m)"
  by pat_completeness auto
termination
  by (relation "measure (\<lambda>(f, i, m). nat (endApiKey m + 1 - i))")
     (auto simp: store_reply_def split: nonce_reply.splits option.splits)

declare initialize_from.simps [simp del]

definition initialize :: "(int \<Rightarrow> int \<Rightarrow> nonce_reply) \<Rightarrow> OptimisticNonceManager \<Rightarrow> OptimisticNonceManager" where
  "initialize nextNonce m = initialize_from nextNonce (startApiKey m) m"

text \<open>\<open>next_nonce\<close> returns \<open>[apiKeyIndex, nonce]\<close> and the updated manager.\<close>

definition next_nonce :: "OptimisticNonceManager \<Rightarrow> (int \<times> int) \<times> OptimisticNonceManager" where
  "next_nonce m =
     (let apiKeyIndex = currentApiKey m;
          nonce = get_or_zero (nonces m) apiKeyIndex;
          m1 = m\<lparr>nonces := (nonces m)(apiKeyIndex \<mapsto> nonce + 1)\<rparr>;
          m2 = m1\<lparr>currentApiKey := currentApiKey m1 + 1\<rparr>;
          m3 = (if currentApiKey m2 > endApiKey m2
                then m2\<lparr>currentApiKey := startApiKey m2\<rparr> else m2)
      in ((apiKeyIndex, nonce), m3))"

definition acknowledge_failure :: "OptimisticNonceManager \<Rightarrow> int \<Rightarrow> OptimisticNonceManager" where
  "acknowledge_failure m api_key_index =
     (let current = get_or_zero (nonces m) api_key_index
      in if current > 0 then m\<lparr>nonces := (nonces m)(api_key_index \<mapsto> current - 1)\<rparr> else m)"

definition hard_refresh_nonce :: "(int \<Rightarrow> int \<Rightarrow> nonce_reply) \<Rightarrow> OptimisticNonceManager \<Rightarrow> int \<Rightarrow> OptimisticNonceManager" where
  "hard_refresh_nonce nextNonce m api_key_index =
     store_reply m api_key_index (nextNonce (accountIndex m) api_key_index)"

text \<open>
  \<open>n\<close> consecutive calls of \<open>next_nonce\<close> with nothing else touching the manager in
  between: the pairs handed out, in order, and the manager afterwards.
\<close>

fun next_nonces :: "nat \<Rightarrow> OptimisticNonceManager \<Rightarrow> (int \<times> int) list \<times> OptimisticNonceManager" where
  "next_nonces 0 m = ([], m)"
| "next_nonces (Suc n) m =
     (let (p, m1) = next_nonce m;
          (ps, m2) = next_nonces n m1
      in (p # ps, m2))"

text \<open>
  \<open>nonce_manager_factory\<close> calls \<open>initialize\<close> without awaiting it, so the loop of
  \<open>initialize\<close> is suspended at each \<open>await\<close> while the program goes on calling
  \<open>next_nonce\<close>. When a fetch lands, the loop resumes: it stores the reply for the
  slot it was waiting on, moves to the next slot and suspends again. A manager with its
  pending \<open>initialize\<close> is the pair of the manager and the loop variable \<open>i\<close>; the
  loop is over once \<open>i\<close> is past \<open>endApiKey\<close>.
\<close>

datatype manager_action = NextNonce | InitializeStep

definition start_initialize :: "OptimisticNonceManager \<Rightarrow> OptimisticNonceManager \<times> int" where
  "start_initialize m = (m, startApiKey m)"

text \<open>
  A schedule of \<open>next_nonce\<close> calls and resumptions of the pending \<open>initialize\<close>: the
  pairs the calls hand out, in order, and the state afterwards.
\<close>

fun run_actions ::
  "(int \<Rightarrow> int \<Rightarrow> nonce_reply) \<Rightarrow> manager_action list \<Rightarrow> OptimisticNonceManager \<times> int
     \<Rightarrow> (int \<times> int) list \<times> OptimisticNonceManager \<times> int" where
  "run_actions nextNonce [] st = ([], st)"
| "run_actions nextNonce (NextNonce # acts) (m, i) =
     (case run_actions nextNonce acts (snd (next_nonce m), i) of
        (ps, st) \<Rightarrow> (fst (next_nonce m) # ps, st))"
| "run_actions nextNonce (InitializeStep # acts) (m, i) =
     (if i \<le> endApiKey m
      then run_actions nextNonce acts (store_reply m i (nextNonce (accountIndex m) i), i + 1)
      else run_actions nextNonce acts (m, i))"

section \<open>Strings and thrown errors\<close>

text \<open>
  A string is a list of characters, one \<open>char\<close> per code unit; the model covers the
  strings whose code units are below 256. Among these, \<open>String.prototype.trim\<close>
  removes tab, line feed, vertical tab, form feed, carriage return, space and the
  no-break space.
\<close>

definition is_whitespace :: "char \<Rightarrow> bool" where
  "is_whitespace c =
     (c = CHR 0x09 \<or> c = CHR 0x0A \<or> c = CHR 0x0B \<or> c = CHR 0x0C \<or> c = CHR 0x0D
      \<or> c = CHR 0x20 \<or> c = CHR 0xA0)"

definition trim :: "string \<Rightarrow> string" where
  "trim s = rev (dropWhile is_whitespace (rev (dropWhile is_whitespace s)))"

text \<open>
  \<open>s.split("\\n")\<close>: the lines of \<open>s\<close>, never an empty array; the empty string
  gives one empty line. (The first branch of the \<open>case\<close> is never taken.)
\<close>

fun split_newline :: "string \<Rightarrow> string list" where
  "split_newline [] = [[]]"
| "split_newline (c # cs) =
     (if c = CHR 0x0A then [] # split_newline cs
      else (case split_newline cs of [] \<Rightarrow> [[c]] | l # ls \<Rightarrow> (c # l) # ls))"

text \<open>\<open>Array.prototype.pop\<close> as used for its value: the last element, \<open>undefined\<close> on \<open>[]\<close>.\<close>

definition pop :: "'a list \<Rightarrow> 'a option" where
  "pop xs = (if xs = [] then None else Some (last xs))"

definition trim_exc :: "string \<Rightarrow> string" where
  "trim_exc exception_body =
     (case pop (split_newline (trim exception_body)) of
        None \<Rightarrow> trim exception_body
      | Some l \<Rightarrow> if l = [] then trim exception_body else l)"

text \<open>The last line of a text, in the words of the specification: what follows the last line feed.\<close>

definition last_line :: "string \<Rightarrow> string" where
  "last_line s = rev (takeWhile (\<lambda>c. c \<noteq> CHR 0x0A) (rev s))"

definition startsWith :: "string \<Rightarrow> string \<Rightarrow> bool" where
  "startsWith s p = (take (length p) s = p)"

text \<open>\<open>s.includes(p)\<close>: \<open>p\<close> occurs in \<open>s\<close> at some position.\<close>

fun js_includes :: "string \<Rightarrow> string \<Rightarrow> bool" where
  "js_includes [] p = (p = [])"
| "js_includes (c # cs) p = (startsWith (c # cs) p \<or> js_includes cs p)"

text \<open>An integer as a template string prints it: an optional minus sign and decimal digits.\<close>

definition digit_char :: "nat \<Rightarrow> char" where
  "digit_char d = ''0123456789'' ! d"

function decimal_digits :: "nat \<Rightarrow> string" where
  "decimal_digits n =
     (if 10 \<le> n then decimal_digits (n div 10) @ [digit_char (n mod 10)] else [digit_char n])"
  by pat_completeness auto
termination
  by (relation "measure (\<lambda>n. n)") auto

declare decimal_digits.simps [simp del]

definition number_to_string :: "int \<Rightarrow> string" where
  "number_to_string i =
     (if i < 0 then CHR ''-'' # decimal_digits (nat (- i)) else decimal_digits (nat i))"

text \<open>
  A nullable string (\<open>string | null\<close>) is a \<open>string option\<close>. It is truthy when it is
  a non-empty string, and \<open>x || null\<close> keeps exactly the truthy values.
\<close>

definition truthy :: "string option \<Rightarrow> bool" where
  "truthy x = (case x of None \<Rightarrow> False | Some s \<Rightarrow> s \<noteq> [])"

definition or_null :: "string option \<Rightarrow> string option" where
  "or_null x = (if truthy x then x else None)"

text \<open>
  A thrown value, as far as the client looks at it: \<open>error.response?.status\<close>,
  \<open>error.message\<close> (absent when the value has none) and \<open>String(error)\<close>.
\<close>

record js_error =
  response_status :: "int option"
  message :: "string option"
  as_string :: string

text \<open>\<open>new Error(msg)\<close> and the \<open>TypeError\<close> of a method call on \<open>undefined\<close>.\<close>

definition Error :: "string \<Rightarrow> js_error" where
  "Error msg =
     \<lparr> response_status = None, message = Some msg,
       as_string = (if msg = [] then ''Error'' else ''Error: '' @ msg) \<rparr>"

definition TypeError :: "string \<Rightarrow> js_error" where
  "TypeError msg =
     \<lparr> response_status = None, message = Some msg,
       as_string = (if msg = [] then ''TypeError'' else ''TypeError: '' @ msg) \<rparr>"

text \<open>\<open>error.message?.includes(p)\<close> read as a condition.\<close>

definition message_includes :: "js_error \<Rightarrow> string \<Rightarrow> bool" where
  "message_includes error p = (case message error of None \<Rightarrow> False | Some msg \<Rightarrow> js_includes msg p)"

text \<open>\<open>error.message || String(error)\<close>.\<close>

definition message_or_string :: "js_error \<Rightarrow> string" where
  "message_or_string error =
     (case message error of
        None \<Rightarrow> as_string error
      | Some msg \<Rightarrow> if msg = [] then as_string error else msg)"

section \<open>The signer client\<close>

subsection \<open>Collaborators\<close>

text \<open>
  The native signer and the exchange API are outside the repository. The client's
  methods take them as an environment: what each foreign function or HTTP operation
  answers to the arguments of one call. A native function of return type \<open>str\<close>
  gives an error text or \<open>null\<close>; one of type \<open>StrOrErr\<close> gives a struct of two
  nullable strings, or nothing at all. \<open>sendTx\<close> throws or yields \<open>response.data\<close>;
  \<open>JSON.parse\<close> throws or yields a value of a type the model leaves open.
\<close>

record StrOrErr =
  str :: "string option"
  err :: "string option"

record RespSendTx =
  code :: int
  tx_hash :: string

text \<open>The eleven arguments of \<open>signer.SignCreateOrder\<close>, in the order of the call.\<close>

record SignCreateOrder_args =
  MarketIndex :: int
  ClientOrderIndex :: int
  BaseAmount :: int
  Price :: int
  IsAsk :: int
  Type :: int
  TimeInForce :: int
  ReduceOnly :: int
  TriggerPrice :: int
  OrderExpiry :: int
  Nonce :: int

record 'j environment =
  CreateClient :: "string \<Rightarrow> string option \<Rightarrow> int \<Rightarrow> int \<Rightarrow> int \<Rightarrow> string option"
  SwitchAPIKey :: "int \<Rightarrow> string option"
  SignCreateOrder :: "SignCreateOrder_args \<Rightarrow> StrOrErr option"
  sendTx :: "int \<Rightarrow> string \<Rightarrow> js_error + RespSendTx"
  nextNonce :: "int \<Rightarrow> int \<Rightarrow> nonce_reply"
  JSON_parse :: "string \<Rightarrow> js_error + 'j"

text \<open>
  The calls a method makes, in order: to the nonce manager, to the native signer and
  to the exchange API.
\<close>

datatype event =
    Call_next_nonce
  | Call_acknowledge_failure int
  | Call_hard_refresh_nonce int
  | Call_CreateClient int "string option"
  | Call_SwitchAPIKey int
  | Call_SignCreateOrder SignCreateOrder_args
  | Call_sendTx int string

definition extractStrOrErr :: "StrOrErr option \<Rightarrow> StrOrErr" where
  "extractStrOrErr result =
     (case result of
        None \<Rightarrow> \<lparr> str = None, err = Some ''Null result returned'' \<rparr>
      | Some r \<Rightarrow> \<lparr> str = or_null (str r), err = or_null (err r) \<rparr>)"

subsection \<open>Constants\<close>

definition CODE_OK :: int where "CODE_OK = 200"
definition TX_TYPE_CREATE_ORDER :: int where "TX_TYPE_CREATE_ORDER = 14"

subsection \<open>Construction\<close>

datatype NonceManagerType = OPTIMISTIC | PESSIMISTIC

record SignerClient =
  url :: string
  private_key :: string
  chain_id :: int
  api_key_index :: int
  end_api_key_index :: int
  api_key_dict :: "(int, string) fmap"
  account_index :: int
  nonce_manager :: OptimisticNonceManager

definition are_keys_equal :: "string \<Rightarrow> string \<Rightarrow> bool" where
  "are_keys_equal key1 key2 =
     (let start_index1 = (if startsWith key1 ''0x'' then 2 else 0);
          start_index2 = (if startsWith key2 ''0x'' then 2 else 0)
      in drop start_index1 key1 = drop start_index2 key2)"

text \<open>
  The loop at the end of \<open>validate_api_private_keys\<close>:
  \<open>for (let api_key = this.api_key_index + 1; api_key < this.end_api_key_index; api_key++)\<close>.
\<close>

function check_missing_from :: "int \<Rightarrow> int \<Rightarrow> (int, string) fmap \<Rightarrow> js_error + unit" where
  "check_missing_from api_key end_index private_keys =
     (if api_key < end_index
      then (if api_key |\<in>| fmdom private_keys
            then check_missing_from (api_key + 1) end_index private_keys
            else Inl (Error (''missing '' @ number_to_string api_key @ '' private key!'')))
      else Inr ())"
  by pat_completeness auto
termination
  by (relation "measure (\<lambda>(api_key, end_index, private_keys). nat (end_index - api_key))") auto

declare check_missing_from.simps [simp del]

text \<open>
  \<open>validate_api_private_keys\<close> reads \<open>this.api_key_index\<close> and
  \<open>this.end_api_key_index\<close>, the only fields set when the constructor calls it; they
  are its first two arguments here. \<open>Object.keys(private_keys).length\<close> is the number
  of keys of the finite map. When the map has as many keys as the range has slots but
  none for the initial slot, \<open>are_keys_equal\<close> is called on \<open>undefined\<close> and its
  \<open>key1.startsWith\<close> throws a \<open>TypeError\<close>.
\<close>

definition validate_api_private_keys :: "int \<Rightarrow> int \<Rightarrow> string \<Rightarrow> (int, string) fmap \<Rightarrow> js_error + unit" where
  "validate_api_private_keys first_index end_index initial_private_key private_keys =
     (if int (fcard (fmdom private_keys)) = end_index - first_index + 1
      then (case fmlookup private_keys first_index of
              None \<Rightarrow> Inl (TypeError ''Cannot read properties of undefined (reading 'startsWith')'')
            | Some key1 \<Rightarrow>
                if \<not> are_keys_equal key1 initial_private_key
                then Inl (Error ''inconsistent private keys'')
                else Inr ())
      else if int (fcard (fmdom private_keys)) \<noteq> end_index - first_index
      then Inl (Error ''unexpected number of private keys'')
      else check_missing_from (first_index + 1) end_index private_keys)"

definition build_api_key_dict :: "int \<Rightarrow> int \<Rightarrow> string \<Rightarrow> (int, string) fmap \<Rightarrow> (int, string) fmap" where
  "build_api_key_dict first_index end_index key private_keys =
     (if int (fcard (fmdom private_keys)) = end_index - first_index
      then fmupd first_index key private_keys
      else private_keys)"

text \<open>
  \<open>nonce_manager_factory\<close>. The manager's \<open>initialize\<close> is started but not awaited:
  the manager is returned with every counter at zero and the fetched values arrive
  later, as \<open>start_initialize\<close> and \<open>run_actions\<close> describe.
\<close>

definition nonce_manager_factory :: "NonceManagerType \<Rightarrow> int \<Rightarrow> int \<Rightarrow> int \<Rightarrow> js_error + OptimisticNonceManager" where
  "nonce_manager_factory nonce_manager_type account start_api_key end_api_key =
     (case nonce_manager_type of
        OPTIMISTIC \<Rightarrow> Inr (new_OptimisticNonceManager account start_api_key end_api_key)
      | PESSIMISTIC \<Rightarrow> Inl (Error ''Unsupported nonce manager type: pessimistic''))"

definition create_client :: "'j environment \<Rightarrow> SignerClient \<Rightarrow> int \<Rightarrow> event list \<times> (js_error + unit)" where
  "create_client env c keyIndex =
     (let apiKey = fmlookup (api_key_dict c) keyIndex
      in ([Call_CreateClient keyIndex apiKey],
          (case or_null (CreateClient env (url c) apiKey (chain_id c) keyIndex (account_index c)) of
             None \<Rightarrow> Inr ()
           | Some e \<Rightarrow> Inl (Error e))))"

text \<open>The constructor's last loop: a client context for every owned slot, stopping at the first error.\<close>

function create_clients_from :: "'j environment \<Rightarrow> SignerClient \<Rightarrow> int \<Rightarrow> event list \<times> (js_error + unit)" where
  "create_clients_from env c api_key =
     (if api_key \<le> end_api_key_index c
      then (case create_client env c api_key of
              (ev, Inl e) \<Rightarrow> (ev, Inl e)
            | (ev, Inr u) \<Rightarrow>
                (case create_clients_from env c (api_key + 1) of (ev', r) \<Rightarrow> (ev @ ev', r)))
      else ([], Inr ()))"
  by pat_completeness auto
termination
  by (relation "measure (\<lambda>(env, c, api_key). nat (end_api_key_index c + 1 - api_key))") auto

declare create_clients_from.simps [simp del]

text \<open>
  \<open>new SignerClient(url, private_key, api_key_index, account_index, options)\<close>, the
  three options given explicitly (their defaults are \<open>-1\<close>, the empty map and
  \<open>OPTIMISTIC\<close>). Loading the native library is taken to succeed.
\<close>

definition new_SignerClient ::
  "'j environment \<Rightarrow> string \<Rightarrow> string \<Rightarrow> int \<Rightarrow> int \<Rightarrow> int \<Rightarrow> (int, string) fmap \<Rightarrow> NonceManagerType
     \<Rightarrow> event list \<times> (js_error + SignerClient)" where
  "new_SignerClient env base_url key first_index account max_api_key_index private_keys nonce_management_type =
     (let key' = (if startsWith key ''0x'' then drop 2 key else key);
          end_index = (if max_api_key_index = - 1 then first_index else max_api_key_index)
      in case validate_api_private_keys first_index end_index key' private_keys of
           Inl e \<Rightarrow> ([], Inl e)
         | Inr u \<Rightarrow>
             (case nonce_manager_factory nonce_management_type account first_index end_index of
                Inl e \<Rightarrow> ([], Inl e)
              | Inr manager \<Rightarrow>
                  (let c = \<lparr> url = base_url, private_key = key',
                             chain_id = (if js_includes base_url ''mainnet'' then 304 else 300),
                             api_key_index = first_index, end_api_key_index = end_index,
                             api_key_dict = build_api_key_dict first_index end_index key' private_keys,
                             account_index = account, nonce_manager = manager \<rparr>
                   in case create_clients_from env c first_index of
                        (ev, Inl e) \<Rightarrow> (ev, Inl e)
                      | (ev, Inr u') \<Rightarrow> (ev, Inr c))))"

subsection \<open>Slot and nonce resolution\<close>

definition switch_api_key :: "'j environment \<Rightarrow> int \<Rightarrow> string option" where
  "switch_api_key env api_key = or_null (SwitchAPIKey env api_key)"

text \<open>\<open>this.nonce_manager.next_nonce()\<close> on a client: the pair and the client with the advanced manager.\<close>

definition client_next_nonce :: "SignerClient \<Rightarrow> (int \<times> int) \<times> SignerClient" where
  "client_next_nonce c =
     (fst (next_nonce (nonce_manager c)), c\<lparr>nonce_manager := snd (next_nonce (nonce_manager c))\<rparr>)"

definition get_api_key_nonce :: "SignerClient \<Rightarrow> int \<Rightarrow> int \<Rightarrow> js_error + ((int \<times> int) \<times> SignerClient)" where
  "get_api_key_nonce c api_key nonce =
     (if api_key \<noteq> - 1 \<and> nonce \<noteq> - 1 then Inr ((api_key, nonce), c)
      else if nonce \<noteq> - 1
      then (if api_key_index c = end_api_key_index c
            then Inr (client_next_nonce c)
            else Inl (Error ''ambiguous api key''))
      else Inr (client_next_nonce c))"

subsection \<open>The submission wrapper\<close>

text \<open>
  A submission method hands \<open>process_api_key_and_nonce\<close> a closure \<open>func\<close> that is
  called with the nonce and the slot. The closure either returns the triple
  \<open>[created_tx, ret, err]\<close> or throws; in the model it also reports the calls it made.
  The wrapper's own result is the list of all calls, what it returns or throws, and
  the client afterwards. The nonce manager of a client is always an
  \<open>OptimisticNonceManager\<close>, the only kind the factory builds, so the
  \<open>instanceof\<close> test in front of the hard refresh always passes.
\<close>

type_synonym 't tx_result = "'t option \<times> RespSendTx option \<times> string option"

type_synonym 't attempt = "event list \<times> (js_error + 't tx_result)"

text \<open>\<open>ret && ret.code !== CODE_OK\<close>.\<close>

definition code_not_ok :: "RespSendTx option \<Rightarrow> bool" where
  "code_not_ok ret = (case ret of None \<Rightarrow> False | Some r \<Rightarrow> code r \<noteq> CODE_OK)"

text \<open>
  The first lines of \<open>process_api_key_and_nonce\<close>: the slot and nonce to use, the
  nonce manager afterwards and the manager call made, if any.
\<close>

definition resolve_api_key_and_nonce ::
  "SignerClient \<Rightarrow> int \<Rightarrow> int \<Rightarrow> (int \<times> int) \<times> OptimisticNonceManager \<times> event list" where
  "resolve_api_key_and_nonce c api_key nonce =
     (if api_key = - 1 \<and> nonce = - 1
      then (fst (next_nonce (nonce_manager c)), snd (next_nonce (nonce_manager c)), [Call_next_nonce])
      else ((api_key, nonce), nonce_manager c, []))"

definition process_api_key_and_nonce ::
  "'j environment \<Rightarrow> (int \<Rightarrow> int \<Rightarrow> 't attempt) \<Rightarrow> int \<Rightarrow> int \<Rightarrow> SignerClient
     \<Rightarrow> event list \<times> (js_error + 't tx_result) \<times> SignerClient" where
  "process_api_key_and_nonce env func api_key nonce c =
     (case resolve_api_key_and_nonce c api_key nonce of
        ((actualApiKeyIndex, actualNonce), m, ev0) \<Rightarrow>
          (let ev = ev0 @ [Call_SwitchAPIKey actualApiKeyIndex]
           in case switch_api_key env actualApiKeyIndex of
                Some e \<Rightarrow>
                  (ev, Inl (Error (''error switching api key: '' @ e)), c\<lparr>nonce_manager := m\<rparr>)
              | None \<Rightarrow>
                  (case func actualNonce actualApiKeyIndex of
                     (evf, Inr (created_tx, ret, er)) \<Rightarrow>
                       if (ret = None \<and> truthy er) \<or> code_not_ok ret
                       then (ev @ evf @ [Call_acknowledge_failure actualApiKeyIndex],
                             Inr (created_tx, ret, er),
                             c\<lparr>nonce_manager := acknowledge_failure m actualApiKeyIndex\<rparr>)
                       else (ev @ evf, Inr (created_tx, ret, er), c\<lparr>nonce_manager := m\<rparr>)
                   | (evf, Inl error) \<Rightarrow>
                       if response_status error = Some 400 \<and> message_includes error ''invalid nonce''
                       then (ev @ evf @ [Call_hard_refresh_nonce actualApiKeyIndex],
                             Inr (None, None, Some (trim_exc (message_or_string error))),
                             c\<lparr>nonce_manager :=
                                 hard_refresh_nonce (nextNonce env) m actualApiKeyIndex\<rparr>)
                       else (ev @ evf @ [Call_acknowledge_failure actualApiKeyIndex],
                             Inr (None, None, Some (trim_exc (message_or_string error))),
                             c\<lparr>nonce_manager := acknowledge_failure m actualApiKeyIndex\<rparr>))))"

subsection \<open>Creating orders\<close>

text \<open>
  The methods take every parameter explicitly; a caller that leaves out \<open>nonce\<close> or
  \<open>api_key_index\<close> passes the default \<open>-1\<close>.
\<close>

definition sign_create_order ::
  "'j environment \<Rightarrow> int \<Rightarrow> int \<Rightarrow> int \<Rightarrow> int \<Rightarrow> bool \<Rightarrow> int \<Rightarrow> int \<Rightarrow> bool \<Rightarrow> int \<Rightarrow> int \<Rightarrow> int
     \<Rightarrow> event list \<times> string option \<times> string option" where
  "sign_create_order env market_index client_order_index base_amount price is_ask order_type
       time_in_force reduce_only trigger_price order_expiry nonce =
     (let args = \<lparr> MarketIndex = market_index, ClientOrderIndex = client_order_index,
                    BaseAmount = base_amount, Price = price, IsAsk = (if is_ask then 1 else 0),
                    Type = order_type, TimeInForce = time_in_force,
                    ReduceOnly = (if reduce_only then 1 else 0), TriggerPrice = trigger_price,
                    OrderExpiry = order_expiry, Nonce = nonce \<rparr>;
          result = extractStrOrErr (SignCreateOrder env args)
      in ([Call_SignCreateOrder args], str result, err result))"

definition send_tx :: "'j environment \<Rightarrow> int \<Rightarrow> string \<Rightarrow> event list \<times> (js_error + RespSendTx)" where
  "send_tx env tx_type tx_info =
     (if (case tx_info of [] \<Rightarrow> True | c0 # cs \<Rightarrow> c0 \<noteq> CHR ''{'')
      then ([], Inl (Error tx_info))
      else ([Call_sendTx tx_type tx_info], sendTx env tx_type tx_info))"

text \<open>The closure that \<open>create_order\<close> passes to the wrapper.\<close>

definition create_order_func ::
  "'j environment \<Rightarrow> int \<Rightarrow> int \<Rightarrow> int \<Rightarrow> int \<Rightarrow> bool \<Rightarrow> int \<Rightarrow> int \<Rightarrow> bool \<Rightarrow> int \<Rightarrow> int
     \<Rightarrow> int \<Rightarrow> int \<Rightarrow> 'j attempt" where
  "create_order_func env market_index client_order_index base_amount price is_ask order_type
       time_in_force reduce_only trigger_price order_expiry n ak =
     (case sign_create_order env market_index client_order_index base_amount price is_ask
             order_type time_in_force reduce_only trigger_price order_expiry n of
        (ev, txInfo, error) \<Rightarrow>
          if truthy error then (ev, Inr (None, None, error))
          else (case or_null txInfo of
                  None \<Rightarrow> (ev, Inr (None, None, Some ''No transaction info''))
                | Some info \<Rightarrow>
                    (case send_tx env TX_TYPE_CREATE_ORDER info of
                       (ev', Inl e) \<Rightarrow> (ev @ ev', Inl e)
                     | (ev', Inr api_response) \<Rightarrow>
                         (case JSON_parse env info of
                            Inl e \<Rightarrow> (ev @ ev', Inl e)
                          | Inr created \<Rightarrow> (ev @ ev', Inr (Some created, Some api_response, None))))))"



section \<open>Example inputs\<close>

text \<open>
  The scenario of the specification: account 410044 with the single API-key slot 3,
  whose nonce the exchange reports as 8; a native signer and an exchange that accept
  everything; and two errors a submission can throw.
\<close>

definition example_manager :: OptimisticNonceManager where
  "example_manager =
     \<lparr> nonces = [3 \<mapsto> 8], accountIndex = 410044, startApiKey = 3, endApiKey = 3,
       currentApiKey = 3 \<rparr>"

definition example_client :: SignerClient where
  "example_client =
     \<lparr> url = ''https://mainnet.zklighter.elliot.ai'', private_key = ''aa'', chain_id = 304,
       api_key_index = 3, end_api_key_index = 3, api_key_dict = fmupd 3 ''aa'' fmempty,
       account_index = 410044, nonce_manager = example_manager \<rparr>"

definition example_environment :: "unit environment" where
  "example_environment =
     \<lparr> CreateClient = (\<lambda>base_url key chain slot account. None),
       SwitchAPIKey = (\<lambda>slot. None),
       SignCreateOrder = (\<lambda>args. Some \<lparr> str = Some ''{}'', err = None \<rparr>),
       sendTx = (\<lambda>tx_type tx_info. Inr \<lparr> code = 200, tx_hash = ''2f24'' \<rparr>),
       nextNonce = (\<lambda>account slot. NonceData (Some 8)),
       JSON_parse = (\<lambda>text. Inr ()) \<rparr>"

definition example_nonce_error :: js_error where
  "example_nonce_error =
     \<lparr> response_status = Some 400,
       message = Some (''Bad Request'' @ [CHR 0x0A] @ ''code=21104 message=invalid nonce'' @ [CHR 0x0A]),
       as_string = ''AxiosError: Bad Request'' \<rparr>"

definition example_network_error :: js_error where
  "example_network_error = Error ''connect ECONNREFUSED''"

text \<open>A client of slots 3 to 5 with three distinct keys, for the ambiguity guard.\<close>

definition example_client_3_5 :: SignerClient where
  "example_client_3_5 =
     \<lparr> url = ''https://mainnet.zklighter.elliot.ai'', private_key = ''aa'', chain_id = 304,
       api_key_index = 3, end_api_key_index = 5,
       api_key_dict = fmupd 3 ''aa'' (fmupd 4 ''bb'' (fmupd 5 ''cc'' fmempty)),
       account_index = 410044, nonce_manager = new_OptimisticNonceManager 410044 3 5 \<rparr>"

section \<open>Properties of the nonce manager\<close>

subsection \<open>One call of \<open>next_nonce\<close>\<close>

lemma next_nonce_pair:
  "fst (next_nonce m) = (currentApiKey m, get_or_zero (nonces m) (currentApiKey m))"
  by (simp add: next_nonce_def Let_def)

lemma next_nonce_nonces:
  "nonces (snd (next_nonce m)) =
     (nonces m)(currentApiKey m \<mapsto> get_or_zero (nonces m) (currentApiKey m) + 1)"
  by (simp add: next_nonce_def Let_def)

lemma next_nonce_current:
  "currentApiKey (snd (next_nonce m)) =
     (if currentApiKey m + 1 > endApiKey m then startApiKey m else currentApiKey m + 1)"
  by (simp add: next_nonce_def Let_def)

lemma next_nonce_frame:
  "startApiKey (snd (next_nonce m)) = startApiKey m"
  "endApiKey (snd (next_nonce m)) = endApiKey m"
  "accountIndex (snd (next_nonce m)) = accountIndex m"
  by (simp_all add: next_nonce_def Let_def)

lemma next_nonce_counter_mono:
  "get_or_zero (nonces m) k \<le> get_or_zero (nonces (snd (next_nonce m))) k"
  by (simp add: next_nonce_nonces get_or_zero_def)

lemma next_nonce_counter_current:
  "get_or_zero (nonces (snd (next_nonce m))) (currentApiKey m) =
     get_or_zero (nonces m) (currentApiKey m) + 1"
  by (simp add: next_nonce_nonces get_or_zero_def)

lemma next_nonces_Suc:
  "fst (next_nonces (Suc n) m) = fst (next_nonce m) # fst (next_nonces n (snd (next_nonce m)))"
  by (simp add: Let_def split: prod.splits)

lemma next_nonces_length: "length (fst (next_nonces n m)) = n"
  by (induction n arbitrary: m) (simp_all add: next_nonces_Suc del: next_nonces.simps(2))

lemma next_nonces_lower:
  "(s, v) \<in> set (fst (next_nonces n m)) \<Longrightarrow> get_or_zero (nonces m) s \<le> v"
proof (induction n arbitrary: m)
  case 0
  then show ?case by simp
next
  case (Suc n)
  from Suc.prems have "(s, v) = fst (next_nonce m) \<or> (s, v) \<in> set (fst (next_nonces n (snd (next_nonce m))))"
    by (simp only: next_nonces_Suc set_simps insert_iff)
  then show ?case
  proof
    assume "(s, v) = fst (next_nonce m)"
    then show ?thesis by (simp add: next_nonce_pair)
  next
    assume "(s, v) \<in> set (fst (next_nonces n (snd (next_nonce m))))"
    then have "get_or_zero (nonces (snd (next_nonce m))) s \<le> v" by (rule Suc.IH)
    with next_nonce_counter_mono [of m s] show ?thesis by linarith
  qed
qed

lemma next_nonces_distinct: "distinct (fst (next_nonces n m))"
proof (induction n arbitrary: m)
  case 0
  then show ?case by simp
next
  case (Suc n)
  have "fst (next_nonce m) \<notin> set (fst (next_nonces n (snd (next_nonce m))))"
  proof
    assume "fst (next_nonce m) \<in> set (fst (next_nonces n (snd (next_nonce m))))"
    then have "get_or_zero (nonces (snd (next_nonce m))) (currentApiKey m)
                 \<le> get_or_zero (nonces m) (currentApiKey m)"
      unfolding next_nonce_pair by (rule next_nonces_lower)
    then show False by (simp add: next_nonce_counter_current)
  qed
  with Suc.IH [of "snd (next_nonce m)"] show ?case
    by (simp only: next_nonces_Suc distinct.simps) simp
qed

lemma next_nonce_literal:
  "next_nonce \<lparr>nonces = ns, accountIndex = a, startApiKey = s, endApiKey = e, currentApiKey = c\<rparr> =
     ((c, get_or_zero ns c),
      \<lparr>nonces = ns(c \<mapsto> get_or_zero ns c + 1), accountIndex = a, startApiKey = s, endApiKey = e,
       currentApiKey = (if c + 1 > e then s else c + 1)\<rparr>)"
  by (simp add: next_nonce_def Let_def)

lemma set_zero_from_3_5: "set_zero_from 3 5 Map.empty = [3 \<mapsto> 0, 4 \<mapsto> 0, 5 \<mapsto> (0::int)]"
  by (simp add: set_zero_from.simps)

lemma round_robin_slot:
  "startApiKey m \<le> currentApiKey m \<Longrightarrow> currentApiKey m \<le> endApiKey m \<Longrightarrow> i < n \<Longrightarrow>
   fst (fst (next_nonces n m) ! i) =
     startApiKey m + (currentApiKey m - startApiKey m + int i) mod (endApiKey m - startApiKey m + 1)"
proof (induction n arbitrary: m i)
  case 0
  then show ?case by simp
next
  case (Suc n)
  show ?case
  proof (cases i)
    case 0
    with Suc.prems show ?thesis
      by (simp add: next_nonces_Suc next_nonce_pair del: next_nonces.simps(2))
  next
    case (Suc k)
    let ?m1 = "snd (next_nonce m)"
    have range: "startApiKey ?m1 \<le> currentApiKey ?m1" "currentApiKey ?m1 \<le> endApiKey ?m1"
      using Suc.prems(1,2) by (simp_all add: next_nonce_current next_nonce_frame)
    from Suc Suc.prems(3) have "k < n" by simp
    from Suc.IH [OF range this]
    have ih: "fst (fst (next_nonces n ?m1) ! k) =
        startApiKey m + (currentApiKey ?m1 - startApiKey m + int k) mod (endApiKey m - startApiKey m + 1)"
      by (simp add: next_nonce_frame)
    have "(currentApiKey ?m1 - startApiKey m + int k) mod (endApiKey m - startApiKey m + 1)
        = (currentApiKey m - startApiKey m + int i) mod (endApiKey m - startApiKey m + 1)"
    proof (cases "currentApiKey m + 1 > endApiKey m")
      case True
      with Suc.prems(2) have e: "endApiKey m = currentApiKey m" by simp
      have "currentApiKey ?m1 = startApiKey m" using True by (simp add: next_nonce_current)
      moreover have "(currentApiKey m - startApiKey m + int i) = int k + (endApiKey m - startApiKey m + 1)"
        using e Suc by simp
      ultimately show ?thesis by (simp only: mod_add_self2) simp
    next
      case False
      then have "currentApiKey ?m1 = currentApiKey m + 1" by (simp add: next_nonce_current)
      then show ?thesis using Suc by (simp add: algebra_simps)
    qed
    with ih show ?thesis using Suc
      by (simp add: next_nonces_Suc del: next_nonces.simps(2))
  qed
qed

lemma acknowledge_failure_counter:
  "get_or_zero (nonces (acknowledge_failure m k)) k =
     (if get_or_zero (nonces m) k > 0 then get_or_zero (nonces m) k - 1 else get_or_zero (nonces m) k)"
  by (simp add: acknowledge_failure_def Let_def get_or_zero_def)

lemma acknowledge_failure_other:
  "j \<noteq> k \<Longrightarrow> nonces (acknowledge_failure m k) j = nonces m j"
  by (simp add: acknowledge_failure_def Let_def)

lemma hard_refresh_nonce_set:
  "api (accountIndex m) k = NonceData (Some M) \<Longrightarrow>
   nonces (hard_refresh_nonce api m k) = (nonces m)(k \<mapsto> M)"
  by (simp add: hard_refresh_nonce_def store_reply_def)


lemma six_calls_3_5:
  "fst (next_nonces 6 (new_OptimisticNonceManager a 3 5)) =
     [(3, 0), (4, 0), (5, 0), (3, 1), (4, 1), (5, 1)]"
  by (simp add: new_OptimisticNonceManager_def set_zero_from_3_5 next_nonce_literal
        get_or_zero_def eval_nat_numeral)

subsection \<open>No double issuance\<close>

lemma store_reply_frame:
  "endApiKey (store_reply m i reply) = endApiKey m"
  "startApiKey (store_reply m i reply) = startApiKey m"
  "accountIndex (store_reply m i reply) = accountIndex m"
  "currentApiKey (store_reply m i reply) = currentApiKey m"
  by (simp_all add: store_reply_def split: nonce_reply.splits option.splits)

lemma run_actions_NextNonce:
  "fst (run_actions api (NextNonce # acts) (m, i)) =
     fst (next_nonce m) # fst (run_actions api acts (snd (next_nonce m), i))"
  by (simp split: prod.splits)

lemma run_actions_quiet:
  "InitializeStep \<notin> set acts \<or> endApiKey m < i \<Longrightarrow>
   fst (run_actions api acts (m, i)) =
     fst (next_nonces (length (filter (\<lambda>a. a = NextNonce) acts)) m)"
proof (induction acts arbitrary: m)
  case Nil
  show ?case by simp
next
  case (Cons a acts)
  show ?case
  proof (cases a)
    case NextNonce
    from Cons.prems NextNonce
    have "InitializeStep \<notin> set acts \<or> endApiKey (snd (next_nonce m)) < i"
      by (auto simp: next_nonce_frame)
    then have "fst (run_actions api acts (snd (next_nonce m), i)) =
        fst (next_nonces (length (filter (\<lambda>a. a = NextNonce) acts)) (snd (next_nonce m)))"
      by (rule Cons.IH)
    with NextNonce show ?thesis
      by (simp add: run_actions_NextNonce next_nonces_Suc del: run_actions.simps next_nonces.simps)
  next
    case InitializeStep
    with Cons.prems have over: "endApiKey m < i" by simp
    then have "fst (run_actions api acts (m, i)) =
        fst (next_nonces (length (filter (\<lambda>a. a = NextNonce) acts)) m)"
      by (intro Cons.IH) simp
    with InitializeStep over show ?thesis by simp
  qed
qed

lemma run_actions_replicate:
  "fst (run_actions api (replicate n NextNonce) (m, i)) = fst (next_nonces n m)"
  using run_actions_quiet [of "replicate n NextNonce" m i api] by simp

lemma run_initialize_steps:
  "fst (snd (run_actions api (replicate (nat (endApiKey m + 1 - i)) InitializeStep) (m, i))) =
     initialize_from api i m"
proof (induction api i m rule: initialize_from.induct)
  case (1 api i m)
  show ?case
  proof (cases "i \<le> endApiKey m")
    case True
    then have n: "nat (endApiKey m + 1 - i) = Suc (nat (endApiKey m + 1 - (i + 1)))" by simp
    from "1.IH" [OF True] True show ?thesis
      by (subst initialize_from.simps) (simp add: n store_reply_frame)
  next
    case False
    then show ?thesis by (subst initialize_from.simps) simp
  qed
qed

text \<open>
  Claim C1, as amended. In a run of \<open>next_nonce\<close> calls on a manager, started in any
  state, with no \<open>acknowledge_failure\<close> or \<open>hard_refresh_nonce\<close> call in between and
  with no write of the pending \<open>initialize\<close> landing in between (none is scheduled,
  or \<open>initialize\<close> has already gone through every slot), two different calls that
  return the same slot return different nonces. The first part is about consecutive
  calls alone, the second about any schedule of calls and resumptions of
  \<open>initialize\<close>.
\<close>

theorem next_nonce_no_double_issuance:
  "(i < j \<and> j < n \<and>
    fst (fst (next_nonces n m) ! i) = fst (fst (next_nonces n m) ! j) \<longrightarrow>
    snd (fst (next_nonces n m) ! i) \<noteq> snd (fst (next_nonces n m) ! j)) \<and>
   ((InitializeStep \<notin> set acts \<or> endApiKey m < pending) \<and>
    i < j \<and> j < length (fst (run_actions api acts (m, pending))) \<and>
    fst (fst (run_actions api acts (m, pending)) ! i) =
      fst (fst (run_actions api acts (m, pending)) ! j) \<longrightarrow>
    snd (fst (run_actions api acts (m, pending)) ! i) \<noteq>
      snd (fst (run_actions api acts (m, pending)) ! j))"
proof -
  have plain: "snd (fst (next_nonces k m) ! i) \<noteq> snd (fst (next_nonces k m) ! j)"
    if ij: "i < j" and jk: "j < k"
      and slot: "fst (fst (next_nonces k m) ! i) = fst (fst (next_nonces k m) ! j)" for k
  proof
    assume "snd (fst (next_nonces k m) ! i) = snd (fst (next_nonces k m) ! j)"
    with slot have "fst (next_nonces k m) ! i = fst (next_nonces k m) ! j"
      by (simp add: prod_eq_iff)
    with ij jk next_nonces_distinct [of k m] show False
      by (simp add: distinct_conv_nth next_nonces_length)
  qed
  have scheduled: "snd (fst (run_actions api acts (m, pending)) ! i) \<noteq>
      snd (fst (run_actions api acts (m, pending)) ! j)"
    if quiet: "InitializeStep \<notin> set acts \<or> endApiKey m < pending"
      and ij: "i < j" and jl: "j < length (fst (run_actions api acts (m, pending)))"
      and slot: "fst (fst (run_actions api acts (m, pending)) ! i) =
        fst (fst (run_actions api acts (m, pending)) ! j)"
  proof -
    let ?k = "length (filter (\<lambda>a. a = NextNonce) acts)"
    have eq: "fst (run_actions api acts (m, pending)) = fst (next_nonces ?k m)"
      using quiet by (rule run_actions_quiet)
    from jl have "j < ?k" by (simp add: eq next_nonces_length)
    with ij slot show ?thesis
      unfolding eq by (intro plain)
  qed
  from plain [of n] scheduled show ?thesis
    by blast
qed

theorem next_nonce_no_double_issuance_witness:
  "(0::nat) < 3 \<and> (3::nat) < 6 \<and>
   fst (fst (next_nonces 6 (new_OptimisticNonceManager 410044 3 5)) ! 0) =
     fst (fst (next_nonces 6 (new_OptimisticNonceManager 410044 3 5)) ! 3) \<and>
   snd (fst (next_nonces 6 (new_OptimisticNonceManager 410044 3 5)) ! 0) \<noteq>
     snd (fst (next_nonces 6 (new_OptimisticNonceManager 410044 3 5)) ! 3) \<and>
   endApiKey example_manager < 4 \<and>
   fst (run_actions (\<lambda>account slot. NonceData (Some 0)) [NextNonce, InitializeStep, NextNonce]
          (example_manager, 4)) = [(3, 8), (3, 9)] \<and>
   snd (fst (run_actions (\<lambda>account slot. NonceData (Some 0)) [NextNonce, InitializeStep, NextNonce]
          (example_manager, 4)) ! 0) \<noteq>
     snd (fst (run_actions (\<lambda>account slot. NonceData (Some 0)) [NextNonce, InitializeStep, NextNonce]
          (example_manager, 4)) ! 1)"
proof -
  let ?api = "\<lambda>account slot. NonceData (Some (0::int))"
  let ?acts = "[NextNonce, InitializeStep, NextNonce]"
  have r: "fst (run_actions ?api ?acts (example_manager, 4)) = [(3, 8), (3, 9)]"
    by (simp add: example_manager_def next_nonce_literal get_or_zero_def)
  have e: "endApiKey example_manager < 4"
    by (simp add: example_manager_def)
  note plain = next_nonce_no_double_issuance
    [where i = 0 and j = 3 and n = 6 and m = "new_OptimisticNonceManager 410044 3 5"]
  note scheduled = next_nonce_no_double_issuance
    [where i = 0 and j = 1 and m = example_manager and acts = ?acts and pending = 4
       and api = ?api]
  from plain have
    "snd (fst (next_nonces 6 (new_OptimisticNonceManager 410044 3 5)) ! 0) \<noteq>
       snd (fst (next_nonces 6 (new_OptimisticNonceManager 410044 3 5)) ! 3)"
    by (simp add: six_calls_3_5)
  moreover have
    "snd (fst (run_actions ?api ?acts (example_manager, 4)) ! 0) \<noteq>
       snd (fst (run_actions ?api ?acts (example_manager, 4)) ! 1)"
  proof -
    have "(InitializeStep \<notin> set ?acts \<or> endApiKey example_manager < 4) \<and>
        (0::nat) < 1 \<and> 1 < length (fst (run_actions ?api ?acts (example_manager, 4))) \<and>
        fst (fst (run_actions ?api ?acts (example_manager, 4)) ! 0) =
          fst (fst (run_actions ?api ?acts (example_manager, 4)) ! 1)"
      by (simp only: r) (simp add: e)
    with scheduled [THEN conjunct2] show ?thesis
      by (rule mp)
  qed
  ultimately show ?thesis
    unfolding r six_calls_3_5 using e by simp
qed

text \<open>
  Without the condition on \<open>initialize\<close> the property fails. A manager for the single
  slot 3 comes out of the factory with counter 0 and its \<open>initialize\<close> pending. A
  first \<open>next_nonce\<close> hands out \<open>(3, 0)\<close> and moves the counter to 1; the fetch lands
  with the exchange's nonce 0 and \<open>initialize\<close> stores it; a second \<open>next_nonce\<close>
  hands out \<open>(3, 0)\<close> again. No \<open>acknowledge_failure\<close> or \<open>hard_refresh_nonce\<close> was
  called.
\<close>

theorem next_nonce_double_issuance_during_initialize:
  "fst (run_actions (\<lambda>account slot. NonceData (Some 0)) [NextNonce, InitializeStep, NextNonce]
          (start_initialize (new_OptimisticNonceManager 410044 3 3))) = [(3, 0), (3, 0)]"
  by (simp add: start_initialize_def new_OptimisticNonceManager_def set_zero_from.simps
        next_nonce_literal store_reply_def get_or_zero_def)

subsection \<open>Rollback\<close>

text \<open>
  Claim C4. When the slot that \<open>next_nonce\<close> is about to pick has counter \<open>K\<close> (a
  nonce counter, so \<open>K\<close> is not negative), \<open>next_nonce\<close> hands out \<open>K\<close> for that slot
  and moves the counter to \<open>K + 1\<close>, and \<open>acknowledge_failure\<close> on that slot brings it
  back to \<open>K\<close>. On any slot, \<open>acknowledge_failure\<close> leaves a counter of \<open>0\<close> at \<open>0\<close>,
  takes exactly one off a positive counter, and never makes a counter negative.
\<close>

theorem acknowledge_failure_rolls_back:
  "(0 \<le> K \<and> get_or_zero (nonces m) (currentApiKey m) = K \<longrightarrow>
      fst (next_nonce m) = (currentApiKey m, K) \<and>
      get_or_zero (nonces (snd (next_nonce m))) (currentApiKey m) = K + 1 \<and>
      get_or_zero (nonces (acknowledge_failure (snd (next_nonce m)) (currentApiKey m)))
        (currentApiKey m) = K) \<and>
   (get_or_zero (nonces m) k = 0 \<longrightarrow> get_or_zero (nonces (acknowledge_failure m k)) k = 0) \<and>
   (0 < get_or_zero (nonces m) k \<longrightarrow>
      get_or_zero (nonces (acknowledge_failure m k)) k = get_or_zero (nonces m) k - 1) \<and>
   (0 \<le> get_or_zero (nonces m) k \<longrightarrow> 0 \<le> get_or_zero (nonces (acknowledge_failure m k)) k)"
proof -
  have restore:
    "get_or_zero (nonces (acknowledge_failure (snd (next_nonce m)) (currentApiKey m)))
       (currentApiKey m) = K"
    if "0 \<le> K" "get_or_zero (nonces m) (currentApiKey m) = K"
    using that by (simp add: acknowledge_failure_counter next_nonce_counter_current)
  have floor: "get_or_zero (nonces (acknowledge_failure m k)) k = 0"
    if "get_or_zero (nonces m) k = 0"
    using that by (simp add: acknowledge_failure_counter)
  have step: "get_or_zero (nonces (acknowledge_failure m k)) k = get_or_zero (nonces m) k - 1"
    if "0 < get_or_zero (nonces m) k"
    using that by (simp add: acknowledge_failure_counter)
  have nonneg: "0 \<le> get_or_zero (nonces (acknowledge_failure m k)) k"
    if "0 \<le> get_or_zero (nonces m) k"
    using that by (simp add: acknowledge_failure_counter)
  from restore floor step nonneg show ?thesis
    by (simp add: next_nonce_pair next_nonce_counter_current)
qed

theorem acknowledge_failure_rolls_back_witness:
  "(0::int) \<le> 8 \<and>
   get_or_zero (nonces \<lparr>nonces = [3 \<mapsto> 8, 4 \<mapsto> 0], accountIndex = 410044, startApiKey = 3,
                        endApiKey = 4, currentApiKey = 3\<rparr>) 3 = 8 \<and>
   get_or_zero (nonces (acknowledge_failure (snd (next_nonce
       \<lparr>nonces = [3 \<mapsto> 8, 4 \<mapsto> 0], accountIndex = 410044, startApiKey = 3,
        endApiKey = 4, currentApiKey = 3\<rparr>)) 3)) 3 = 8 \<and>
   get_or_zero (nonces \<lparr>nonces = [3 \<mapsto> 8, 4 \<mapsto> 0], accountIndex = 410044, startApiKey = 3,
                        endApiKey = 4, currentApiKey = 3\<rparr>) 4 = 0 \<and>
   get_or_zero (nonces (acknowledge_failure
       \<lparr>nonces = [3 \<mapsto> 8, 4 \<mapsto> 0], accountIndex = 410044, startApiKey = 3,
        endApiKey = 4, currentApiKey = 3\<rparr> 4)) 4 = 0"
  using acknowledge_failure_rolls_back
    [of 8 "\<lparr>nonces = [3 \<mapsto> 8, 4 \<mapsto> 0], accountIndex = 410044, startApiKey = 3,
            endApiKey = 4, currentApiKey = 3\<rparr>" 4]
  by (simp add: get_or_zero_def)

subsection \<open>Hard refresh\<close>

text \<open>
  Claim C5. After \<open>next_nonce\<close> has moved the picked slot's counter from \<open>K\<close> to
  \<open>K + 1\<close>, a \<open>hard_refresh_nonce\<close> of that slot to which the exchange API answers with
  the nonce \<open>M\<close> stores exactly \<open>M\<close> for the slot, whatever \<open>K\<close> was; the same holds
  for a hard refresh of any slot of any manager.
\<close>

theorem hard_refresh_nonce_overrides:
  "(api (accountIndex m) (currentApiKey m) = NonceData (Some M) \<longrightarrow>
      get_or_zero (nonces (snd (next_nonce m))) (currentApiKey m) =
        get_or_zero (nonces m) (currentApiKey m) + 1 \<and>
      nonces (hard_refresh_nonce api (snd (next_nonce m)) (currentApiKey m)) (currentApiKey m) = Some M \<and>
      get_or_zero (nonces (hard_refresh_nonce api (snd (next_nonce m)) (currentApiKey m)))
        (currentApiKey m) = M) \<and>
   (api (accountIndex m) k = NonceData (Some M) \<longrightarrow>
      nonces (hard_refresh_nonce api m k) k = Some M)"
proof -
  have "nonces (hard_refresh_nonce api (snd (next_nonce m)) (currentApiKey m)) (currentApiKey m) = Some M"
    if "api (accountIndex m) (currentApiKey m) = NonceData (Some M)"
    using that by (simp add: hard_refresh_nonce_set next_nonce_frame)
  moreover have "nonces (hard_refresh_nonce api m k) k = Some M"
    if "api (accountIndex m) k = NonceData (Some M)"
    using that by (simp add: hard_refresh_nonce_set)
  ultimately show ?thesis
    by (simp add: next_nonce_counter_current) (simp add: get_or_zero_def)
qed

theorem hard_refresh_nonce_overrides_witness:
  "(\<lambda>a k. NonceData (Some 2)) (accountIndex \<lparr>nonces = [3 \<mapsto> 8], accountIndex = 410044,
       startApiKey = 3, endApiKey = 3, currentApiKey = 3\<rparr>) 3 = NonceData (Some 2) \<and>
   get_or_zero (nonces (snd (next_nonce \<lparr>nonces = [3 \<mapsto> 8], accountIndex = 410044,
       startApiKey = 3, endApiKey = 3, currentApiKey = 3\<rparr>))) 3 = 9 \<and>
   nonces (hard_refresh_nonce (\<lambda>a k. NonceData (Some 2))
       (snd (next_nonce \<lparr>nonces = [3 \<mapsto> 8], accountIndex = 410044,
          startApiKey = 3, endApiKey = 3, currentApiKey = 3\<rparr>)) 3) 3 = Some 2"
  using hard_refresh_nonce_overrides
    [of "\<lambda>a k. NonceData (Some 2)"
        "\<lparr>nonces = [3 \<mapsto> 8], accountIndex = 410044, startApiKey = 3, endApiKey = 3,
          currentApiKey = 3\<rparr>" 2 3]
  by (simp add: get_or_zero_def)

subsection \<open>Round robin\<close>

text \<open>
  Claim C6. A manager that owns the slots 3 to 5 and is about to pick slot 3 returns
  the slots 3, 4, 5, 3, 4, 5 on six consecutive \<open>next_nonce\<close> calls. In general a call
  returns the current slot with that slot's counter, adds one to that counter, and
  moves on to the next slot, or back to the start slot after the end slot; so with
  the current slot inside the owned range, the \<open>i\<close>-th call of a run returns the slot
  \<open>i\<close> places further round the range.
\<close>

theorem next_nonce_round_robin:
  "(startApiKey m = 3 \<and> endApiKey m = 5 \<and> currentApiKey m = 3 \<longrightarrow>
      map fst (fst (next_nonces 6 m)) = [3, 4, 5, 3, 4, 5]) \<and>
   fst (next_nonce m) = (currentApiKey m, get_or_zero (nonces m) (currentApiKey m)) \<and>
   get_or_zero (nonces (snd (next_nonce m))) (currentApiKey m) =
     get_or_zero (nonces m) (currentApiKey m) + 1 \<and>
   currentApiKey (snd (next_nonce m)) =
     (if currentApiKey m + 1 > endApiKey m then startApiKey m else currentApiKey m + 1) \<and>
   (startApiKey m \<le> currentApiKey m \<and> currentApiKey m \<le> endApiKey m \<and> i < n \<longrightarrow>
      fst (fst (next_nonces n m) ! i) =
        startApiKey m + (currentApiKey m - startApiKey m + int i) mod (endApiKey m - startApiKey m + 1))"
proof -
  have six: "map fst (fst (next_nonces 6 m)) = [3, 4, 5, 3, 4, 5]"
    if m: "startApiKey m = 3" "endApiKey m = 5" "currentApiKey m = 3"
  proof -
    have len: "length (map fst (fst (next_nonces 6 m))) = length [3, 4, 5, 3, 4, 5 :: int]"
      by (simp add: next_nonces_length)
    have nth: "fst (fst (next_nonces 6 m) ! i) = [3, 4, 5, 3, 4, 5 :: int] ! i" if "i < 6" for i
    proof -
      from that m have "fst (fst (next_nonces 6 m) ! i) = 3 + int i mod 3"
        using round_robin_slot [of m i 6] by simp
      moreover from that have "i \<in> {0, 1, 2, 3, 4, 5}" by auto
      ultimately show ?thesis by auto
    qed
    show ?thesis
      by (rule nth_equalityI [OF len]) (simp add: nth next_nonces_length)
  qed
  show ?thesis
    using six round_robin_slot [of m i n]
    by (simp add: next_nonce_pair next_nonce_counter_current next_nonce_current)
qed

theorem next_nonce_round_robin_witness:
  "startApiKey (new_OptimisticNonceManager 410044 3 5) = 3 \<and>
   endApiKey (new_OptimisticNonceManager 410044 3 5) = 5 \<and>
   currentApiKey (new_OptimisticNonceManager 410044 3 5) = 3 \<and>
   (4::nat) < 6 \<and>
   map fst (fst (next_nonces 6 (new_OptimisticNonceManager 410044 3 5))) = [3, 4, 5, 3, 4, 5] \<and>
   fst (fst (next_nonces 6 (new_OptimisticNonceManager 410044 3 5)) ! 4) = 4"
  using next_nonce_round_robin [of "new_OptimisticNonceManager 410044 3 5" 4 6]
  by (simp add: new_OptimisticNonceManager_def)

section \<open>Properties of the string helpers\<close>

lemma split_newline_not_Nil: "split_newline s \<noteq> []"
  by (induction s) (simp_all split: list.splits)

lemma split_newline_single: "tl (split_newline s) = [] \<longleftrightarrow> CHR 0x0A \<notin> set s"
  by (induction s) (auto simp: split_newline_not_Nil split: list.splits)

lemma takeWhile_all: "CHR 0x0A \<notin> set s \<Longrightarrow> takeWhile (\<lambda>c. c \<noteq> CHR 0x0A) (rev s) = rev s"
  by (rule takeWhile_eq_all_conv [THEN iffD2]) auto

lemma last_line_no_newline: "CHR 0x0A \<notin> set s \<Longrightarrow> last_line s = s"
  by (simp add: last_line_def takeWhile_all)

lemma last_line_Cons_later: "CHR 0x0A \<in> set cs \<Longrightarrow> last_line (c # cs) = last_line cs"
proof -
  assume "CHR 0x0A \<in> set cs"
  then have "takeWhile (\<lambda>c. c \<noteq> CHR 0x0A) (rev cs @ [c]) = takeWhile (\<lambda>c. c \<noteq> CHR 0x0A) (rev cs)"
    by (intro takeWhile_append1 [of "CHR 0x0A"]) simp_all
  then show ?thesis by (simp add: last_line_def)
qed

lemma last_line_newline_Cons: "CHR 0x0A \<notin> set cs \<Longrightarrow> last_line (CHR 0x0A # cs) = cs"
proof -
  assume a: "CHR 0x0A \<notin> set cs"
  then have "takeWhile (\<lambda>c. c \<noteq> CHR 0x0A) (rev cs @ [CHR 0x0A]) = rev cs @ takeWhile (\<lambda>c. c \<noteq> CHR 0x0A) [CHR 0x0A]"
    by (intro takeWhile_append2) auto
  then show ?thesis by (simp add: last_line_def)
qed


lemma last_split_newline: "last (split_newline s) = last_line s"
proof (induction s)
  case Nil
  show ?case by (simp add: last_line_def)
next
  case (Cons c cs)
  show ?case
  proof (cases "CHR 0x0A \<in> set cs")
    case True
    then have "tl (split_newline cs) \<noteq> []" by (simp add: split_newline_single)
    then have "last (split_newline (c # cs)) = last (split_newline cs)"
      by (cases "split_newline cs") (auto simp: split_newline_not_Nil)
    with Cons True show ?thesis by (simp add: last_line_Cons_later)
  next
    case False
    then have single: "tl (split_newline cs) = []" by (simp add: split_newline_single)
    then have one: "split_newline cs = [last_line cs]"
      using Cons split_newline_not_Nil [of cs] by (cases "split_newline cs") auto
    show ?thesis
    proof (cases "c = CHR 0x0A")
      case True
      with False one show ?thesis by (simp add: last_line_newline_Cons last_line_no_newline)
    next
      case False
      with \<open>CHR 0x0A \<notin> set cs\<close> one show ?thesis by (simp add: last_line_no_newline)
    qed
  qed
qed

lemma trim_last_not_whitespace: "trim s \<noteq> [] \<Longrightarrow> \<not> is_whitespace (last (trim s))"
proof -
  assume ne: "trim s \<noteq> []"
  let ?r = "dropWhile is_whitespace (rev (dropWhile is_whitespace s))"
  from ne have r: "?r \<noteq> []" by (simp add: trim_def)
  then have "\<not> is_whitespace (hd ?r)" by (rule hd_dropWhile)
  moreover have "last (trim s) = hd ?r" using r by (simp add: trim_def last_rev)
  ultimately show ?thesis by simp
qed

lemma last_line_empty: "last_line x = [] \<Longrightarrow> x \<noteq> [] \<Longrightarrow> last x = CHR 0x0A"
proof -
  assume e: "last_line x = []" and ne: "x \<noteq> []"
  from e have "takeWhile (\<lambda>c. c \<noteq> CHR 0x0A) (rev x) = []" by (simp add: last_line_def)
  with ne have "hd (rev x) = CHR 0x0A" by (cases "rev x") (auto split: if_splits)
  with ne show ?thesis by (simp add: hd_rev)
qed

lemma trim_exc_last_line: "trim_exc s = last_line (trim s)"
proof (cases "last_line (trim s) = []")
  case True
  have "trim s = []"
  proof (rule ccontr)
    assume ne: "trim s \<noteq> []"
    with True have "last (trim s) = CHR 0x0A" by (rule last_line_empty)
    moreover from ne have "\<not> is_whitespace (last (trim s))" by (rule trim_last_not_whitespace)
    ultimately show False by (simp add: is_whitespace_def)
  qed
  with True show ?thesis
    by (simp add: trim_exc_def pop_def split_newline_not_Nil last_split_newline)
next
  case False
  then show ?thesis
    by (simp add: trim_exc_def pop_def split_newline_not_Nil last_split_newline)
qed

section \<open>Properties of the submission wrapper\<close>

subsection \<open>The wrapper case by case\<close>

lemma process_thrown:
  assumes r: "resolve_api_key_and_nonce c ak n = ((slot, nonce'), m, ev)"
    and s: "switch_api_key env slot = None"
    and f: "func nonce' slot = (evf, Inl error)"
  shows "process_api_key_and_nonce env func ak n c =
     (if response_status error = Some 400 \<and> message_includes error ''invalid nonce''
      then (ev @ [Call_SwitchAPIKey slot] @ evf @ [Call_hard_refresh_nonce slot],
            Inr (None, None, Some (trim_exc (message_or_string error))),
            c\<lparr>nonce_manager := hard_refresh_nonce (nextNonce env) m slot\<rparr>)
      else (ev @ [Call_SwitchAPIKey slot] @ evf @ [Call_acknowledge_failure slot],
            Inr (None, None, Some (trim_exc (message_or_string error))),
            c\<lparr>nonce_manager := acknowledge_failure m slot\<rparr>))"
  using r s f by (simp add: process_api_key_and_nonce_def Let_def)

lemma process_returned:
  assumes r: "resolve_api_key_and_nonce c ak n = ((slot, nonce'), m, ev)"
    and s: "switch_api_key env slot = None"
    and f: "func nonce' slot = (evf, Inr (created_tx, ret, er))"
  shows "process_api_key_and_nonce env func ak n c =
     (if (ret = None \<and> truthy er) \<or> code_not_ok ret
      then (ev @ [Call_SwitchAPIKey slot] @ evf @ [Call_acknowledge_failure slot],
            Inr (created_tx, ret, er),
            c\<lparr>nonce_manager := acknowledge_failure m slot\<rparr>)
      else (ev @ [Call_SwitchAPIKey slot] @ evf, Inr (created_tx, ret, er), c\<lparr>nonce_manager := m\<rparr>))"
  using r s f by (simp add: process_api_key_and_nonce_def Let_def)

lemma process_switch_failed:
  assumes r: "resolve_api_key_and_nonce c ak n = ((slot, nonce'), m, ev)"
    and s: "switch_api_key env slot = Some e"
  shows "process_api_key_and_nonce env func ak n c =
     (ev @ [Call_SwitchAPIKey slot], Inl (Error (''error switching api key: '' @ e)), c\<lparr>nonce_manager := m\<rparr>)"
  using r s by (simp add: process_api_key_and_nonce_def Let_def)

lemma resolve_explicit:
  "\<not> (ak = - 1 \<and> n = - 1) \<Longrightarrow> resolve_api_key_and_nonce c ak n = ((ak, n), nonce_manager c, [])"
  by (simp add: resolve_api_key_and_nonce_def)


lemma process_trace_prefix:
  assumes r: "resolve_api_key_and_nonce c ak n = ((slot, nonce'), m, ev)"
    and s: "switch_api_key env slot = None"
  shows "take (length ev + 1 + length (fst (func nonce' slot))) (fst (process_api_key_and_nonce env func ak n c)) =
           ev @ [Call_SwitchAPIKey slot] @ fst (func nonce' slot)"
proof (cases "func nonce' slot")
  case (Pair evf res)
  show ?thesis
  proof (cases res)
    case (Inl error)
    with Pair have f: "func nonce' slot = (evf, Inl error)" by simp
    show ?thesis
      by (simp add: process_thrown [where func = func, OF r s f] f)
  next
    case (Inr t)
    obtain created_tx ret er where t: "t = (created_tx, ret, er)" by (cases t) auto
    with Pair Inr have f: "func nonce' slot = (evf, Inr (created_tx, ret, er))" by simp
    show ?thesis
      by (simp add: process_returned [where func = func, OF r s f] f)
  qed
qed



subsection \<open>The example scenario\<close>

lemma example_nonce_error_includes: "message_includes example_nonce_error ''invalid nonce''"
  by (simp add: message_includes_def example_nonce_error_def startsWith_def)

lemma example_nonce_error_last_line: "last_line (trim (message_or_string example_nonce_error)) = ''code=21104 message=invalid nonce''"
  by (simp add: message_or_string_def example_nonce_error_def trim_def is_whitespace_def last_line_def)

lemma example_network_error_last_line:
  "last_line (trim (message_or_string example_network_error)) = ''connect ECONNREFUSED''"
  by (simp add: message_or_string_def example_network_error_def Error_def trim_def
        is_whitespace_def last_line_def)

lemma example_client_resolve_auto: "resolve_api_key_and_nonce example_client (- 1) (- 1) =
    ((3, 8), example_manager\<lparr>nonces := [3 \<mapsto> 9]\<rparr>, [Call_next_nonce])"
  by (simp add: resolve_api_key_and_nonce_def example_client_def example_manager_def
        next_nonce_literal get_or_zero_def)

lemma example_environment_switch: "switch_api_key example_environment k = None"
  by (simp add: switch_api_key_def example_environment_def or_null_def truthy_def)

lemma example_rejected_order:
  "create_order_func (example_environment\<lparr>sendTx := \<lambda>tx_type tx_info. Inr \<lparr>code = 21120, tx_hash = []\<rparr>\<rparr>)
      2 0 4 341754 False 1 0 False 0 0 7 3 =
     ([Call_SignCreateOrder
         \<lparr> MarketIndex = 2, ClientOrderIndex = 0, BaseAmount = 4, Price = 341754, IsAsk = 0,
           Type = 1, TimeInForce = 0, ReduceOnly = 0, TriggerPrice = 0, OrderExpiry = 0, Nonce = 7 \<rparr>,
       Call_sendTx 14 ''{}''],
      Inr (Some (), Some \<lparr>code = 21120, tx_hash = []\<rparr>, None))"
  by (simp add: create_order_func_def sign_create_order_def example_environment_def
        extractStrOrErr_def or_null_def truthy_def send_tx_def TX_TYPE_CREATE_ORDER_def)

subsection \<open>Thrown errors\<close>

text \<open>
  Claim C3. Let a submission method run its attempt \<open>func\<close> through
  \<open>process_api_key_and_nonce\<close>, with the slot switch accepted, and let the attempt
  throw \<open>error\<close>. If the error's response status is 400 and its message contains
  \<open>invalid nonce\<close>, the only manager call after the attempt is
  \<open>hard_refresh_nonce\<close> on the slot used, and the manager is the refreshed one;
  otherwise it is \<open>acknowledge_failure\<close> on that slot. Either way the method
  returns, not throws, the triple \<open>[null, null, text]\<close> where \<open>text\<close> is the last
  line of the trimmed \<open>error.message || String(error)\<close>, which is the message itself
  whenever the error has a non-empty one.
\<close>

theorem process_api_key_and_nonce_thrown_error:
  assumes r: "resolve_api_key_and_nonce c ak n = ((slot, nonce'), m, ev)"
    and s: "switch_api_key env slot = None"
    and f: "func nonce' slot = (evf, Inl error)"
  shows "(response_status error = Some 400 \<and> message_includes error ''invalid nonce'' \<longrightarrow>
            fst (process_api_key_and_nonce env func ak n c) =
              ev @ [Call_SwitchAPIKey slot] @ evf @ [Call_hard_refresh_nonce slot] \<and>
            nonce_manager (snd (snd (process_api_key_and_nonce env func ak n c))) =
              hard_refresh_nonce (nextNonce env) m slot) \<and>
         (\<not> (response_status error = Some 400 \<and> message_includes error ''invalid nonce'') \<longrightarrow>
            fst (process_api_key_and_nonce env func ak n c) =
              ev @ [Call_SwitchAPIKey slot] @ evf @ [Call_acknowledge_failure slot] \<and>
            nonce_manager (snd (snd (process_api_key_and_nonce env func ak n c))) =
              acknowledge_failure m slot) \<and>
         fst (snd (process_api_key_and_nonce env func ak n c)) =
           Inr (None, None, Some (last_line (trim (message_or_string error)))) \<and>
         (\<forall>msg. message error = Some msg \<and> msg \<noteq> [] \<longrightarrow> message_or_string error = msg)"
proof -
  note p = process_thrown [where func = func, OF r s f]
  have refresh:
    "response_status error = Some 400 \<and> message_includes error ''invalid nonce'' \<longrightarrow>
       fst (process_api_key_and_nonce env func ak n c) =
         ev @ [Call_SwitchAPIKey slot] @ evf @ [Call_hard_refresh_nonce slot] \<and>
       nonce_manager (snd (snd (process_api_key_and_nonce env func ak n c))) =
         hard_refresh_nonce (nextNonce env) m slot"
    by (simp add: p)
  have rollback:
    "\<not> (response_status error = Some 400 \<and> message_includes error ''invalid nonce'') \<longrightarrow>
       fst (process_api_key_and_nonce env func ak n c) =
         ev @ [Call_SwitchAPIKey slot] @ evf @ [Call_acknowledge_failure slot] \<and>
       nonce_manager (snd (snd (process_api_key_and_nonce env func ak n c))) =
         acknowledge_failure m slot"
    by (simp add: p)
  have returned:
    "fst (snd (process_api_key_and_nonce env func ak n c)) =
       Inr (None, None, Some (last_line (trim (message_or_string error))))"
    by (simp add: p trim_exc_last_line)
  have own_message: "\<forall>msg. message error = Some msg \<and> msg \<noteq> [] \<longrightarrow> message_or_string error = msg"
    by (simp add: message_or_string_def)
  from refresh rollback returned own_message show ?thesis
    by (intro conjI)
qed

theorem process_api_key_and_nonce_thrown_error_witness:
  "resolve_api_key_and_nonce example_client (- 1) (- 1) =
     ((3, 8), example_manager\<lparr>nonces := [3 \<mapsto> 9]\<rparr>, [Call_next_nonce]) \<and>
   switch_api_key example_environment 3 = None \<and>
   response_status example_nonce_error = Some 400 \<and>
   message_includes example_nonce_error ''invalid nonce'' \<and>
   fst (process_api_key_and_nonce example_environment
          (\<lambda>n ak. ([], Inl example_nonce_error) :: unit attempt) (- 1) (- 1) example_client) =
     [Call_next_nonce, Call_SwitchAPIKey 3, Call_hard_refresh_nonce 3] \<and>
   fst (snd (process_api_key_and_nonce example_environment
               (\<lambda>n ak. ([], Inl example_nonce_error) :: unit attempt) (- 1) (- 1) example_client)) =
     Inr (None, None, Some ''code=21104 message=invalid nonce'') \<and>
   nonces (nonce_manager (snd (snd (process_api_key_and_nonce example_environment
               (\<lambda>n ak. ([], Inl example_nonce_error) :: unit attempt) (- 1) (- 1) example_client)))) 3 =
     Some 8 \<and>
   response_status example_network_error \<noteq> Some 400 \<and>
   fst (process_api_key_and_nonce example_environment
          (\<lambda>n ak. ([], Inl example_network_error) :: unit attempt) (- 1) (- 1) example_client) =
     [Call_next_nonce, Call_SwitchAPIKey 3, Call_acknowledge_failure 3] \<and>
   fst (snd (process_api_key_and_nonce example_environment
               (\<lambda>n ak. ([], Inl example_network_error) :: unit attempt) (- 1) (- 1) example_client)) =
     Inr (None, None, Some ''connect ECONNREFUSED'') \<and>
   nonces (nonce_manager (snd (snd (process_api_key_and_nonce example_environment
               (\<lambda>n ak. ([], Inl example_network_error) :: unit attempt) (- 1) (- 1) example_client)))) 3 =
     Some 8"
proof -
  let ?refused = "\<lambda>n ak. ([], Inl example_nonce_error) :: unit attempt"
  let ?offline = "\<lambda>n ak. ([], Inl example_network_error) :: unit attempt"
  have f: "?refused 8 3 = ([], Inl example_nonce_error)"
    by simp
  have g: "?offline 8 3 = ([], Inl example_network_error)"
    by simp
  have st: "response_status example_nonce_error = Some 400"
    by (simp add: example_nonce_error_def)
  have st': "response_status example_network_error \<noteq> Some 400"
    by (simp add: example_network_error_def Error_def)
  have hr: "nonces (hard_refresh_nonce (nextNonce example_environment)
               (example_manager\<lparr>nonces := [3 \<mapsto> 9]\<rparr>) 3) 3 = Some 8"
    by (simp add: hard_refresh_nonce_def store_reply_def example_environment_def)
  have ack: "nonces (acknowledge_failure (example_manager\<lparr>nonces := [3 \<mapsto> 9]\<rparr>) 3) 3 = Some 8"
    by (simp add: acknowledge_failure_def get_or_zero_def)
  note th = process_api_key_and_nonce_thrown_error
    [where func = ?refused, OF example_client_resolve_auto example_environment_switch f]
  note th' = process_api_key_and_nonce_thrown_error
    [where func = ?offline, OF example_client_resolve_auto example_environment_switch g]
  from th st example_nonce_error_includes have
    "fst (process_api_key_and_nonce example_environment ?refused (- 1) (- 1) example_client) =
       [Call_next_nonce] @ [Call_SwitchAPIKey 3] @ [] @ [Call_hard_refresh_nonce 3]"
    "nonce_manager (snd (snd (process_api_key_and_nonce example_environment ?refused
          (- 1) (- 1) example_client))) =
       hard_refresh_nonce (nextNonce example_environment) (example_manager\<lparr>nonces := [3 \<mapsto> 9]\<rparr>) 3"
    "fst (snd (process_api_key_and_nonce example_environment ?refused (- 1) (- 1) example_client)) =
       Inr (None, None, Some (last_line (trim (message_or_string example_nonce_error))))"
    by blast+
  moreover from th' st' have
    "fst (process_api_key_and_nonce example_environment ?offline (- 1) (- 1) example_client) =
       [Call_next_nonce] @ [Call_SwitchAPIKey 3] @ [] @ [Call_acknowledge_failure 3]"
    "nonce_manager (snd (snd (process_api_key_and_nonce example_environment ?offline
          (- 1) (- 1) example_client))) =
       acknowledge_failure (example_manager\<lparr>nonces := [3 \<mapsto> 9]\<rparr>) 3"
    "fst (snd (process_api_key_and_nonce example_environment ?offline (- 1) (- 1) example_client)) =
       Inr (None, None, Some (last_line (trim (message_or_string example_network_error))))"
    by blast+
  ultimately show ?thesis
    by (simp add: example_nonce_error_includes example_nonce_error_last_line
          example_network_error_last_line example_client_resolve_auto
          example_environment_switch st st' hr ack)
qed

subsection \<open>Rollback for explicit slot and nonce\<close>

text \<open>
  Claim C9. When the caller supplies both the slot and the nonce (neither negative), so
  that the nonce manager issues nothing, and the attempt returns a signing error
  (\<open>ret\<close> null with an error text) or an API response whose code is not 200, the
  wrapper still calls \<open>acknowledge_failure\<close> on the supplied slot: the manager's
  counter for that slot, when positive, goes down by one.
\<close>

theorem explicit_slot_and_nonce_rolled_back:
  assumes a: "0 \<le> ak" "0 \<le> n"
    and s: "switch_api_key env ak = None"
    and f: "func n ak = (evf, Inr (created_tx, ret, er))"
    and bad: "(ret = None \<and> truthy er) \<or> (\<exists>r. ret = Some r \<and> code r \<noteq> 200)"
  shows "process_api_key_and_nonce env func ak n c =
           ([Call_SwitchAPIKey ak] @ evf @ [Call_acknowledge_failure ak],
            Inr (created_tx, ret, er),
            c\<lparr>nonce_manager := acknowledge_failure (nonce_manager c) ak\<rparr>) \<and>
         (0 < get_or_zero (nonces (nonce_manager c)) ak \<longrightarrow>
            get_or_zero (nonces (nonce_manager (snd (snd (process_api_key_and_nonce env func ak n c))))) ak =
              get_or_zero (nonces (nonce_manager c)) ak - 1)"
proof -
  from a have r: "resolve_api_key_and_nonce c ak n = ((ak, n), nonce_manager c, [])"
    by (simp add: resolve_explicit)
  from bad have "(ret = None \<and> truthy er) \<or> code_not_ok ret"
    by (auto simp: code_not_ok_def CODE_OK_def)
  with process_returned [where func = func, OF r s f]
  have p: "process_api_key_and_nonce env func ak n c =
           ([Call_SwitchAPIKey ak] @ evf @ [Call_acknowledge_failure ak],
            Inr (created_tx, ret, er),
            c\<lparr>nonce_manager := acknowledge_failure (nonce_manager c) ak\<rparr>)"
    by simp
  show ?thesis
    by (simp add: p acknowledge_failure_counter)
qed

theorem explicit_slot_and_nonce_rolled_back_witness:
  "(0::int) \<le> 3 \<and> (0::int) \<le> 7 \<and>
   switch_api_key (example_environment\<lparr>sendTx := \<lambda>tx_type tx_info. Inr \<lparr>code = 21120, tx_hash = []\<rparr>\<rparr>) 3 = None \<and>
   code \<lparr>code = 21120, tx_hash = []\<rparr> \<noteq> 200 \<and>
   get_or_zero (nonces (nonce_manager example_client)) 3 = 8 \<and>
   get_or_zero (nonces (nonce_manager (snd (snd (process_api_key_and_nonce
       (example_environment\<lparr>sendTx := \<lambda>tx_type tx_info. Inr \<lparr>code = 21120, tx_hash = []\<rparr>\<rparr>)
       (create_order_func (example_environment\<lparr>sendTx := \<lambda>tx_type tx_info. Inr \<lparr>code = 21120, tx_hash = []\<rparr>\<rparr>)
          2 0 4 341754 False 1 0 False 0 0)
       3 7 example_client))))) 3 = 7"
proof -
  let ?env = "example_environment\<lparr>sendTx := \<lambda>tx_type tx_info. Inr \<lparr>code = 21120, tx_hash = []\<rparr>\<rparr>"
  have s: "switch_api_key ?env 3 = None"
    by (simp add: switch_api_key_def example_environment_def or_null_def truthy_def)
  have bad: "(Some \<lparr>code = 21120, tx_hash = []\<rparr> = None \<and> truthy None) \<or>
             (\<exists>r. Some \<lparr>code = 21120, tx_hash = []\<rparr> = Some r \<and> code r \<noteq> 200)"
    by simp
  have k: "get_or_zero (nonces (nonce_manager example_client)) 3 = 8"
    by (simp add: example_client_def example_manager_def get_or_zero_def)
  note th = explicit_slot_and_nonce_rolled_back
    [where func = "create_order_func ?env 2 0 4 341754 False 1 0 False 0 0" and c = example_client,
     OF _ _ s example_rejected_order bad]
  from th k show ?thesis
    by (simp add: s acknowledge_failure_counter)
qed

subsection \<open>When the manager is consulted\<close>

text \<open>
  Claim C10. The wrapper takes slot and nonce from \<open>next_nonce\<close> exactly when both
  arguments are \<open>-1\<close>; in every other case it uses both as supplied and leaves the
  manager alone. So with an explicit nonce and the slot \<open>-1\<close> the first call is
  \<open>SwitchAPIKey(-1)\<close>: if the signer refuses, the wrapper throws with the client
  unchanged, and if it accepts, the attempt runs with that nonce and the slot \<open>-1\<close>.
  No sole slot is inferred and \<open>get_api_key_nonce\<close> plays no part.
\<close>

theorem process_consults_manager_only_for_both_auto:
  "resolve_api_key_and_nonce c (- 1) (- 1) =
     (fst (next_nonce (nonce_manager c)), snd (next_nonce (nonce_manager c)), [Call_next_nonce]) \<and>
   (\<not> (ak = - 1 \<and> n = - 1) \<longrightarrow>
      resolve_api_key_and_nonce c ak n = ((ak, n), nonce_manager c, [])) \<and>
   (0 \<le> n \<longrightarrow> hd (fst (process_api_key_and_nonce env func (- 1) n c)) = Call_SwitchAPIKey (- 1)) \<and>
   (0 \<le> n \<and> switch_api_key env (- 1) = Some e \<longrightarrow>
      process_api_key_and_nonce env func (- 1) n c =
        ([Call_SwitchAPIKey (- 1)], Inl (Error (''error switching api key: '' @ e)), c)) \<and>
   (0 \<le> n \<and> switch_api_key env (- 1) = None \<longrightarrow>
      take (1 + length (fst (func n (- 1)))) (fst (process_api_key_and_nonce env func (- 1) n c)) =
        Call_SwitchAPIKey (- 1) # fst (func n (- 1)))"
proof -
  have r: "resolve_api_key_and_nonce c (- 1) n = ((- 1, n), nonce_manager c, [])" if "0 \<le> n"
    using that by (simp add: resolve_explicit)
  have sw_fail: "process_api_key_and_nonce env func (- 1) n c =
        ([Call_SwitchAPIKey (- 1)], Inl (Error (''error switching api key: '' @ e)), c)"
    if "0 \<le> n" "switch_api_key env (- 1) = Some e" for e
    using process_switch_failed [where func = func, OF r [OF that(1)] that(2)] by simp
  have sw_ok: "take (1 + length (fst (func n (- 1)))) (fst (process_api_key_and_nonce env func (- 1) n c)) =
        Call_SwitchAPIKey (- 1) # fst (func n (- 1))"
    if "0 \<le> n" "switch_api_key env (- 1) = None"
    using process_trace_prefix [where func = func, OF r [OF that(1)] that(2)] by simp
  have first: "hd (fst (process_api_key_and_nonce env func (- 1) n c)) = Call_SwitchAPIKey (- 1)"
    if n: "0 \<le> n"
  proof (cases "switch_api_key env (- 1)")
    case None
    from sw_ok [OF n None] show ?thesis
      by (metis hd_take list.sel(1) add_is_0 zero_neq_one not_gr_zero)
  next
    case (Some e')
    from sw_fail [OF n Some] show ?thesis by simp
  qed
  show ?thesis
    using sw_fail sw_ok first
    by (simp add: resolve_explicit resolve_api_key_and_nonce_def)
qed

theorem process_consults_manager_only_for_both_auto_witness:
  "(0::int) \<le> 7 \<and> \<not> ((3::int) = - 1 \<and> (7::int) = - 1) \<and>
   switch_api_key example_environment (- 1) = None \<and>
   api_key_index example_client = end_api_key_index example_client \<and>
   resolve_api_key_and_nonce example_client 3 7 = ((3, 7), example_manager, []) \<and>
   resolve_api_key_and_nonce example_client (- 1) (- 1) =
     ((3, 8), example_manager\<lparr>nonces := [3 \<mapsto> 9]\<rparr>, [Call_next_nonce]) \<and>
   take 2 (fst (process_api_key_and_nonce example_environment
                  (create_order_func example_environment 2 0 4 341754 False 1 0 False 0 0)
                  (- 1) 7 example_client)) =
     [Call_SwitchAPIKey (- 1),
      Call_SignCreateOrder
        \<lparr> MarketIndex = 2, ClientOrderIndex = 0, BaseAmount = 4, Price = 341754, IsAsk = 0,
          Type = 1, TimeInForce = 0, ReduceOnly = 0, TriggerPrice = 0, OrderExpiry = 0, Nonce = 7 \<rparr>]"
proof -
  let ?func = "create_order_func example_environment 2 0 4 341754 False 1 0 False 0 0"
  have f: "fst (?func 7 (- 1)) =
      [Call_SignCreateOrder
        \<lparr> MarketIndex = 2, ClientOrderIndex = 0, BaseAmount = 4, Price = 341754, IsAsk = 0,
          Type = 1, TimeInForce = 0, ReduceOnly = 0, TriggerPrice = 0, OrderExpiry = 0, Nonce = 7 \<rparr>,
       Call_sendTx 14 ''{}'']"
    by (simp add: create_order_func_def sign_create_order_def example_environment_def
        extractStrOrErr_def or_null_def truthy_def send_tx_def TX_TYPE_CREATE_ORDER_def)
  note th = process_consults_manager_only_for_both_auto
    [where c = example_client and ak = 3 and n = 7 and env = example_environment and func = ?func]
  from th example_environment_switch [of "- 1"] have
    "take (1 + length (fst (?func 7 (- 1))))
       (fst (process_api_key_and_nonce example_environment ?func (- 1) 7 example_client)) =
     Call_SwitchAPIKey (- 1) # fst (?func 7 (- 1))"
    by simp
  then have t3: "take 3 (fst (process_api_key_and_nonce example_environment ?func (- 1) 7 example_client)) =
     [Call_SwitchAPIKey (- 1),
      Call_SignCreateOrder
        \<lparr> MarketIndex = 2, ClientOrderIndex = 0, BaseAmount = 4, Price = 341754, IsAsk = 0,
          Type = 1, TimeInForce = 0, ReduceOnly = 0, TriggerPrice = 0, OrderExpiry = 0, Nonce = 7 \<rparr>,
       Call_sendTx 14 ''{}'']"
    by (simp add: f numeral_3_eq_3)
  from th have "resolve_api_key_and_nonce example_client 3 7 = ((3, 7), nonce_manager example_client, [])"
    by simp
  then have r: "resolve_api_key_and_nonce example_client 3 7 = ((3, 7), example_manager, [])"
    by (simp add: example_client_def)
  have "take 2 (fst (process_api_key_and_nonce example_environment ?func (- 1) 7 example_client)) =
      take 2 (take 3 (fst (process_api_key_and_nonce example_environment ?func (- 1) 7 example_client)))"
    by simp
  also have "\<dots> =
     [Call_SwitchAPIKey (- 1),
      Call_SignCreateOrder
        \<lparr> MarketIndex = 2, ClientOrderIndex = 0, BaseAmount = 4, Price = 341754, IsAsk = 0,
          Type = 1, TimeInForce = 0, ReduceOnly = 0, TriggerPrice = 0, OrderExpiry = 0, Nonce = 7 \<rparr>]"
    by (simp only: t3) simp
  finally have t2: "take 2 (fst (process_api_key_and_nonce example_environment ?func (- 1) 7 example_client)) =
     [Call_SwitchAPIKey (- 1),
      Call_SignCreateOrder
        \<lparr> MarketIndex = 2, ClientOrderIndex = 0, BaseAmount = 4, Price = 341754, IsAsk = 0,
          Type = 1, TimeInForce = 0, ReduceOnly = 0, TriggerPrice = 0, OrderExpiry = 0, Nonce = 7 \<rparr>]" .
  have single: "api_key_index example_client = end_api_key_index example_client"
    by (simp add: example_client_def)
  show ?thesis
    by (simp add: t2 r single example_client_resolve_auto example_environment_switch)
qed

subsection \<open>Market orders\<close>



section \<open>Properties of slot and nonce resolution\<close>

lemma get_api_key_nonce_ambiguous:
  "nonce \<noteq> - 1 \<Longrightarrow> api_key_index c \<noteq> end_api_key_index c \<Longrightarrow>
   get_api_key_nonce c (- 1) nonce = Inl (Error ''ambiguous api key'')"
  by (simp add: get_api_key_nonce_def)

lemma get_api_key_nonce_sole_slot:
  "nonce \<noteq> - 1 \<Longrightarrow> api_key_index c = end_api_key_index c \<Longrightarrow>
   get_api_key_nonce c (- 1) nonce = Inr (client_next_nonce c)"
  by (simp add: get_api_key_nonce_def)

lemma get_api_key_nonce_explicit:
  "api_key \<noteq> - 1 \<Longrightarrow> nonce \<noteq> - 1 \<Longrightarrow> get_api_key_nonce c api_key nonce = Inr ((api_key, nonce), c)"
  by (simp add: get_api_key_nonce_def)

lemma example_client_next_nonce:
  "client_next_nonce example_client =
     ((3, 8), example_client\<lparr>nonce_manager := example_manager\<lparr>nonces := [3 \<mapsto> 9]\<rparr>\<rparr>)"
  by (simp add: client_next_nonce_def example_client_def example_manager_def next_nonce_literal
        get_or_zero_def)

text \<open>
  Claim C2. \<open>get_api_key_nonce\<close> with an explicit nonce and the slot \<open>-1\<close>: a client
  that owns the slots 3 to 5 is refused with \<open>ambiguous api key\<close>, as the claim says.
  A client that owns only slot 3 is accepted, but the pair returned is the one
  \<open>next_nonce\<close> hands out: with the manager's counter at 8 the call with nonce 7
  returns \<open>(3, 8)\<close> and moves the counter to 9; it does not return \<open>(3, 7)\<close>.
\<close>

theorem get_api_key_nonce_sole_slot_discards_nonce:
  "get_api_key_nonce example_client_3_5 (- 1) 7 = Inl (Error ''ambiguous api key'') \<and>
   get_api_key_nonce example_client (- 1) 7 =
     Inr ((3, 8), example_client\<lparr>nonce_manager := example_manager\<lparr>nonces := [3 \<mapsto> 9]\<rparr>\<rparr>) \<and>
   get_api_key_nonce example_client (- 1) 7 \<noteq> Inr ((3, 7), example_client)"
proof -
  have a: "get_api_key_nonce example_client_3_5 (- 1) 7 = Inl (Error ''ambiguous api key'')"
    by (rule get_api_key_nonce_ambiguous) (simp_all add: example_client_3_5_def)
  have b: "get_api_key_nonce example_client (- 1) 7 = Inr (client_next_nonce example_client)"
    by (rule get_api_key_nonce_sole_slot) (simp_all add: example_client_def)
  show ?thesis
    by (simp add: a b example_client_next_nonce)
qed

section \<open>Properties of key validation\<close>

lemma validate_unexpected_number:
  "int (fcard (fmdom private_keys)) \<noteq> end_index - first_index + 1 \<Longrightarrow>
   int (fcard (fmdom private_keys)) \<noteq> end_index - first_index \<Longrightarrow>
   validate_api_private_keys first_index end_index key private_keys =
     Inl (Error ''unexpected number of private keys'')"
  by (simp add: validate_api_private_keys_def)

lemma validate_inconsistent:
  "int (fcard (fmdom private_keys)) = end_index - first_index + 1 \<Longrightarrow>
   fmlookup private_keys first_index = Some key1 \<Longrightarrow> \<not> are_keys_equal key1 key \<Longrightarrow>
   validate_api_private_keys first_index end_index key private_keys =
     Inl (Error ''inconsistent private keys'')"
  by (simp add: validate_api_private_keys_def)

lemma are_keys_equal_prefix:
  "\<not> startsWith k ''0x'' \<Longrightarrow> are_keys_equal (''0x'' @ k) k"
  "\<not> startsWith k ''0x'' \<Longrightarrow> are_keys_equal k (''0x'' @ k)"
  "are_keys_equal k k"
  by (simp_all add: are_keys_equal_def startsWith_def)

lemma new_SignerClient_keys_1_2:
  "new_SignerClient example_environment ''https://mainnet.zklighter.elliot.ai'' ''0xaa'' 0 410044 2
      (fmupd 1 ''bb'' (fmupd 2 ''cc'' fmempty)) OPTIMISTIC =
   ([Call_CreateClient 0 (Some ''aa''), Call_CreateClient 1 (Some ''bb''), Call_CreateClient 2 (Some ''cc'')],
    Inr \<lparr> url = ''https://mainnet.zklighter.elliot.ai'', private_key = ''aa'', chain_id = 304,
       api_key_index = 0, end_api_key_index = 2,
       api_key_dict = fmupd 0 ''aa'' (fmupd 1 ''bb'' (fmupd 2 ''cc'' fmempty)),
       account_index = 410044, nonce_manager = new_OptimisticNonceManager 410044 0 2 \<rparr>)"
  by (simp add: new_SignerClient_def Let_def startsWith_def validate_api_private_keys_def fcard_finsert_if fcard_fempty
       check_missing_from.simps nonce_manager_factory_def build_api_key_dict_def
       create_clients_from.simps create_client_def example_environment_def or_null_def truthy_def)

lemma new_SignerClient_keys_1_3:
  "new_SignerClient example_environment ''https://mainnet.zklighter.elliot.ai'' ''0xaa'' 0 410044 2
      (fmupd 1 ''bb'' (fmupd 3 ''cc'' fmempty)) OPTIMISTIC =
   ([Call_CreateClient 0 (Some ''aa''), Call_CreateClient 1 (Some ''bb''), Call_CreateClient 2 None],
    Inr \<lparr> url = ''https://mainnet.zklighter.elliot.ai'', private_key = ''aa'', chain_id = 304,
       api_key_index = 0, end_api_key_index = 2,
       api_key_dict = fmupd 0 ''aa'' (fmupd 1 ''bb'' (fmupd 3 ''cc'' fmempty)),
       account_index = 410044, nonce_manager = new_OptimisticNonceManager 410044 0 2 \<rparr>)"
  by (simp add: new_SignerClient_def Let_def startsWith_def validate_api_private_keys_def fcard_finsert_if fcard_fempty
       check_missing_from.simps nonce_manager_factory_def build_api_key_dict_def
       create_clients_from.simps create_client_def example_environment_def or_null_def truthy_def)

text \<open>
  Claim C7. For the slot range 0 to 2 and the primary key \<open>aa\<close>: keys for the slots
  1 and 2 alone are accepted; a three-entry map whose entry for slot 0 differs from the
  primary key is refused with \<open>inconsistent private keys\<close>; a one-entry map is
  refused with \<open>unexpected number of private keys\<close>. But maps of other shapes are
  accepted too: keys for the slots 1 and 3 (the loop that looks for missing keys stops
  before the end slot, and slot 2 is left without a key), entries for the slots 0 and
  1 with a slot-0 key that differs from the primary key, and three entries of which
  only the one for slot 0 lies in the range.
\<close>

theorem validate_api_private_keys_accepts_missing_slot:
  "validate_api_private_keys 0 2 ''aa'' (fmupd 1 ''bb'' (fmupd 2 ''cc'' fmempty)) = Inr () \<and>
   validate_api_private_keys 0 2 ''aa'' (fmupd 0 ''0xdd'' (fmupd 1 ''bb'' (fmupd 2 ''cc'' fmempty))) =
     Inl (Error ''inconsistent private keys'') \<and>
   validate_api_private_keys 0 2 ''aa'' (fmupd 1 ''bb'' fmempty) =
     Inl (Error ''unexpected number of private keys'') \<and>
   validate_api_private_keys 0 2 ''aa'' (fmupd 1 ''bb'' (fmupd 3 ''cc'' fmempty)) = Inr () \<and>
   fmlookup (build_api_key_dict 0 2 ''aa'' (fmupd 1 ''bb'' (fmupd 3 ''cc'' fmempty))) 2 = None \<and>
   validate_api_private_keys 0 2 ''aa'' (fmupd 0 ''dd'' (fmupd 1 ''bb'' fmempty)) = Inr () \<and>
   validate_api_private_keys 0 2 ''aa'' (fmupd 0 ''aa'' (fmupd 5 ''bb'' (fmupd 9 ''cc'' fmempty))) = Inr ()"
  by (simp add: validate_api_private_keys_def build_api_key_dict_def fcard_finsert_if fcard_fempty
        check_missing_from.simps are_keys_equal_def startsWith_def)

end
